theory Spec2Isabelle
  imports Main "HOL-Library.Sublist" "HOL-Library.Char_ord" "HOL-Library.List_Lexorder"
begin

section \<open>Path algebra\<close>

text \<open>
  Paths are Go strings, modelled as byte lists. The shell runs on Unix, so the separator
  is the slash and there is no volume name.
\<close>

type_synonym path = string

definition Separator :: char where
  "Separator = CHR ''/''"

text \<open>\<open>strings.HasPrefix(s, prefix)\<close> and \<open>strings.HasSuffix(s, suffix)\<close>.\<close>

definition HasPrefix :: "string \<Rightarrow> string \<Rightarrow> bool" where
  "HasPrefix s pre = prefix pre s"

definition HasSuffix :: "string \<Rightarrow> string \<Rightarrow> bool" where
  "HasSuffix s suf = suffix suf s"

text \<open>
  The elements of a path: the pieces between separators, as \<open>strings.Split(p, "/")\<close>
  gives them (always at least one piece, empty pieces kept).
\<close>

fun elements :: "path \<Rightarrow> string list" where
  "elements [] = [[]]"
| "elements (c # cs) =
     (if c = Separator then [] # elements cs
      else (c # hd (elements cs)) # tl (elements cs))"

text \<open>\<open>strings.Join(elems, "/")\<close>.\<close>

fun joinsep :: "string list \<Rightarrow> path" where
  "joinsep [] = []"
| "joinsep [x] = x"
| "joinsep (x # y # ys) = x @ Separator # joinsep (y # ys)"

text \<open>
  \<open>filepath.Clean\<close> of the Go standard library, element by element. The library scans
  the path once and keeps an output buffer; \<open>out\<close> below is that buffer as the list of
  elements written so far. An empty element and \<open>.\<close> are dropped; \<open>..\<close> removes the
  last element written when there is one that is not itself \<open>..\<close> (the library's
  \<open>out.w > dotdot\<close>), is dropped at the root of a rooted path, and is kept otherwise;
  any other element is appended.
\<close>

definition clean_step :: "bool \<Rightarrow> string list \<Rightarrow> string \<Rightarrow> string list" where
  "clean_step rooted out c =
     (if c = [] \<or> c = ''.'' then out
      else if c = ''..'' then
        (if out \<noteq> [] \<and> last out \<noteq> ''..'' then butlast out
         else if rooted then out
         else out @ [''..''])
      else out @ [c])"

definition rooted :: "path \<Rightarrow> bool" where
  "rooted p = (p \<noteq> [] \<and> hd p = Separator)"

definition clean_out :: "bool \<Rightarrow> string list \<Rightarrow> path" where
  "clean_out r out =
     (if r then Separator # joinsep out
      else if out = [] then ''.'' else joinsep out)"

definition Clean :: "path \<Rightarrow> path" where
  "Clean p =
     (if p = [] then ''.''
      else clean_out (rooted p) (foldl (clean_step (rooted p)) [] (elements p)))"

text \<open>
  \<open>filepath.Join(dname, fname)\<close> for two elements: leading empty elements are ignored,
  the rest is joined with the separator and cleaned; all empty gives the empty string.
\<close>

definition Join :: "path \<Rightarrow> path \<Rightarrow> path" where
  "Join dname fname =
     (if dname \<noteq> [] then Clean (dname @ Separator # fname)
      else if fname \<noteq> [] then Clean fname
      else [])"

text \<open>The shell's own \<open>join\<close> (sftpshell.go).\<close>

definition join :: "path \<Rightarrow> path \<Rightarrow> path" where
  "join dname fname =
     (if HasPrefix fname ''/'' then fname
      else if HasSuffix fname ''/'' then Join dname fname @ ''/''
      else Join dname fname)"

text \<open>
  \<open>filepath.Base\<close>: trailing separators are stripped, then the last element is taken;
  the empty path gives \<open>.\<close>, a path of separators only gives the separator.
\<close>

definition Base :: "path \<Rightarrow> path" where
  "Base p =
     (if p = [] then ''.''
      else let q = rev (dropWhile (\<lambda>c. c = Separator) (rev p))
           in if q = [] then [Separator] else last (elements q))"

text \<open>\<open>filepath.Dir\<close>: everything up to the last separator, cleaned.\<close>

definition Dir :: "path \<Rightarrow> path" where
  "Dir p = Clean (rev (dropWhile (\<lambda>c. c \<noteq> Separator) (rev p)))"

text \<open>The shell's own \<open>base\<close> (sftpshell.go).\<close>

definition base :: "path \<Rightarrow> path" where
  "base s = (let s1 = Base s in if s1 = ''/'' then [] else s1)"

section \<open>Errors, file entries and the two backends\<close>

text \<open>
  A Go \<open>error\<close> value: the text \<open>err.Error()\<close> gives, and whether \<open>os.IsExist(err)\<close>
  holds for it. \<open>nil\<close> is \<open>None\<close> of \<open>error option\<close>.
\<close>

datatype error = Error (Msg: string) (IsExist: bool)

definition errors_New :: "string \<Rightarrow> error" where
  "errors_New m = Error m False"

text \<open>\<open>io.EOF\<close>, the value the \<open>exit\<close> handler returns.\<close>

definition EOF :: error where
  "EOF = Error ''EOF'' False"

text \<open>What the shell reads of an \<open>os.FileInfo\<close>.\<close>

record fileinfo =
  Name :: string
  IsDir :: bool
  IsRegular :: bool

type_synonym handle = nat

text \<open>
  The remote side is reached through the calls of the SFTP client, the local side through
  the \<open>os\<close> and \<open>ioutil\<close> packages. Neither is code of this repository: each call is a
  parameter, a transition of the outside world \<open>'w\<close> (both file systems) that returns the
  call's result. The last fields are the pure helpers that come from other packages
  (\<open>filepath.Rel\<close>, the shellwords parser, and the repository's \<open>quote\<close> and
  \<open>lib.FormatListOfFiles\<close>, which live in other files).
\<close>

record 'w sys =
  client_Stat :: "path \<Rightarrow> 'w \<Rightarrow> (error + fileinfo) \<times> 'w"
  client_ReadDir :: "path \<Rightarrow> 'w \<Rightarrow> (error + fileinfo list) \<times> 'w"
  client_Remove :: "path \<Rightarrow> 'w \<Rightarrow> error option \<times> 'w"
  client_Mkdir :: "path \<Rightarrow> 'w \<Rightarrow> error option \<times> 'w"
  client_Open :: "path \<Rightarrow> 'w \<Rightarrow> (error + handle) \<times> 'w"
  client_Create :: "path \<Rightarrow> 'w \<Rightarrow> (error + handle) \<times> 'w"
  os_Stat :: "path \<Rightarrow> 'w \<Rightarrow> (error + fileinfo) \<times> 'w"
  ioutil_ReadDir :: "path \<Rightarrow> 'w \<Rightarrow> (error + fileinfo list) \<times> 'w"
  os_RemoveAll :: "path \<Rightarrow> 'w \<Rightarrow> error option \<times> 'w"
  os_Mkdir :: "path \<Rightarrow> 'w \<Rightarrow> error option \<times> 'w"
  os_Open :: "path \<Rightarrow> 'w \<Rightarrow> (error + handle) \<times> 'w"
  os_Create :: "path \<Rightarrow> 'w \<Rightarrow> (error + handle) \<times> 'w"
  io_Copy :: "handle \<Rightarrow> handle \<Rightarrow> 'w \<Rightarrow> error option \<times> 'w"
  file_Close :: "handle \<Rightarrow> 'w \<Rightarrow> 'w"
  homedir_Dir :: "'w \<Rightarrow> (error + string) \<times> 'w"
  lib_SFTPGlob :: "path \<Rightarrow> string \<Rightarrow> 'w \<Rightarrow> (error + string list) \<times> 'w"
  lib_LocalGlob :: "path \<Rightarrow> string \<Rightarrow> 'w \<Rightarrow> (error + string list) \<times> 'w"
  filepath_Rel :: "path \<Rightarrow> path \<Rightarrow> error + path"
  shellwords_Parse :: "string \<Rightarrow> error + (string list \<times> int)"
  quote :: "string \<Rightarrow> string"
  lib_FormatListOfFiles :: "nat \<Rightarrow> bool \<Rightarrow> (fileinfo \<times> string) list \<Rightarrow> string"

section \<open>Session state\<close>

text \<open>
  The fields of \<open>shellstate\<close> that hold data. The client handle is the \<open>client_\<close> part of
  \<open>sys\<close>; the two sinks \<open>info\<close> and \<open>err\<close> are the lists of the messages they have been
  called with, oldest first; \<open>world\<close> is the state of everything outside the process.
\<close>

record 'w shellstate =
  LocalWD :: string
  RemoteWD :: string
  initRemoteWD :: string
  externalPager :: bool
  info :: "string list"
  err :: "string list"
  world :: 'w

text \<open>\<open>s.err(m)\<close> and \<open>s.info(m)\<close>.\<close>

definition s_err :: "string \<Rightarrow> 'w shellstate \<Rightarrow> 'w shellstate" where
  "s_err m s = s\<lparr>err := err s @ [m]\<rparr>"


text \<open>A call of a backend function from a handler: the world moves, the rest stays.\<close>

definition call :: "('w \<Rightarrow> 'a \<times> 'w) \<Rightarrow> 'w shellstate \<Rightarrow> 'a \<times> 'w shellstate" where
  "call f s = (case f (world s) of (r, w) \<Rightarrow> (r, s\<lparr>world := w\<rparr>))"

text \<open>What a handler returns: the result text and the error, with the state it leaves.\<close>

type_synonym 'w returned = "(string \<times> error option) \<times> 'w shellstate"

section \<open>Remove handlers\<close>

text \<open>\<open>rm\<close>: the loop over the arguments, then the handler.\<close>

fun rm_args :: "'w sys \<Rightarrow> string list \<Rightarrow> 'w shellstate \<Rightarrow> 'w shellstate" where
  "rm_args sys [] s = s"
| "rm_args sys (name # args) s =
     (let path = join (RemoteWD s) name in
      case call (client_Remove sys path) s of
        (None, s1) \<Rightarrow> rm_args sys args s1
      | (Some e, s1) \<Rightarrow> rm_args sys args (s_err (name @ '': '' @ Msg e) s1))"

definition rm :: "'w sys \<Rightarrow> string list \<Rightarrow> 'w shellstate \<Rightarrow> 'w returned" where
  "rm sys args s =
     (if length args = 0 then (([], Some (errors_New ''rm needs at least one argument'')), s)
      else (([], None), rm_args sys args s))"

text \<open>
  \<open>rmdir\<close>. The closure \<open>_rmdir\<close> calls itself on every sub-directory the backend
  lists, and nothing in the code bounds the depth of what a backend may list, so the
  model counts the nesting of calls: \<open>rmdir_inner sys n\<close> is \<open>_rmdir\<close> allowed \<open>n\<close>
  nested calls, and \<open>None\<close> says that the allowance ran out. \<open>rmdir_files\<close> is the loop
  over the entries of one directory, with the named result \<open>e\<close> as accumulator.
\<close>

fun rmdir_inner ::
  "'w sys \<Rightarrow> nat \<Rightarrow> path \<Rightarrow> 'w shellstate \<Rightarrow> (error option \<times> 'w shellstate) option"
and rmdir_files ::
  "'w sys \<Rightarrow> nat \<Rightarrow> path \<Rightarrow> fileinfo list \<Rightarrow> error option \<Rightarrow> 'w shellstate
     \<Rightarrow> (error option \<times> 'w shellstate) option"
where
  "rmdir_inner sys 0 dirname s = None"
| "rmdir_inner sys (Suc n) dirname s =
     (case call (client_Stat sys dirname) s of
        (Inl e1, s1) \<Rightarrow> Some (Some e1, s1)
      | (Inr stats, s1) \<Rightarrow>
          if \<not> IsDir stats then Some (call (client_Remove sys dirname) s1)
          else
            (case call (client_ReadDir sys dirname) s1 of
               (Inl e2, s2) \<Rightarrow> Some (Some e2, s2)
             | (Inr files, s2) \<Rightarrow>
                 (case rmdir_files sys n dirname files None s2 of
                    None \<Rightarrow> None
                  | Some (Some e, s3) \<Rightarrow> Some (Some e, s3)
                  | Some (None, s3) \<Rightarrow> Some (call (client_Remove sys dirname) s3))))"
| "rmdir_files sys n dirname [] e s = Some (e, s)"
| "rmdir_files sys n dirname (file # files) e s =
     (let path = join dirname (Name file) in
      if IsDir file then
        (case rmdir_inner sys n path s of
           None \<Rightarrow> None
         | Some (None, s1) \<Rightarrow> rmdir_files sys n dirname files e s1
         | Some (Some e1, s1) \<Rightarrow>
             rmdir_files sys n dirname files (if e = None then Some e1 else e)
               (s_err (''rmdir on '' @ path @ '': '' @ Msg e1) s1))
      else
        (case call (client_Remove sys path) s of
           (None, s1) \<Rightarrow> rmdir_files sys n dirname files e s1
         | (Some e1, s1) \<Rightarrow>
             rmdir_files sys n dirname files (if e = None then Some e1 else e)
               (s_err (''rm on '' @ path @ '': '' @ Msg e1) s1)))"

fun rmdir_args ::
  "'w sys \<Rightarrow> nat \<Rightarrow> string list \<Rightarrow> 'w shellstate \<Rightarrow> 'w shellstate option" where
  "rmdir_args sys n [] s = Some s"
| "rmdir_args sys n (name # args) s =
     (let path = join (RemoteWD s) name in
      case rmdir_inner sys n path s of
        None \<Rightarrow> None
      | Some (None, s1) \<Rightarrow> rmdir_args sys n args s1
      | Some (Some e, s1) \<Rightarrow> rmdir_args sys n args (s_err (name @ '': '' @ Msg e) s1))"

definition rmdir :: "'w sys \<Rightarrow> nat \<Rightarrow> string list \<Rightarrow> 'w shellstate \<Rightarrow> 'w returned option" where
  "rmdir sys n args s =
     (if length args = 0
      then Some (([], Some (errors_New ''rmdir needs at least one argument'')), s)
      else (case rmdir_args sys n args s of
              None \<Rightarrow> None
            | Some s1 \<Rightarrow> Some (([], None), s1)))"



section \<open>Navigation handlers\<close>

text \<open>Closing a file: the result of \<open>Close\<close> is always discarded.\<close>

definition close_file :: "'w sys \<Rightarrow> handle \<Rightarrow> 'w shellstate \<Rightarrow> 'w shellstate" where
  "close_file sys f s = s\<lparr>world := file_Close sys f (world s)\<rparr>"

definition cd :: "'w sys \<Rightarrow> string list \<Rightarrow> 'w shellstate \<Rightarrow> 'w returned" where
  "cd sys args s =
     (if length args > 1 then (([], Some (errors_New ''cd takes only one argument'')), s)
      else
        let args1 = (if length args = 0 then args @ [initRemoteWD s] else args);
            d = join (RemoteWD s) (hd args1)
        in case call (client_Stat sys d) s of
             (Inl e, s1) \<Rightarrow> (([], Some e), s1)
           | (Inr stats, s1) \<Rightarrow>
               if \<not> IsDir stats then (([], Some (errors_New ''not a directory'')), s1)
               else
                 (case call (client_Open sys d) s1 of
                    (Inl e, s2) \<Rightarrow> (([], Some e), s2)
                  | (Inr f, s2) \<Rightarrow> (([], None), (close_file sys f s2)\<lparr>RemoteWD := d\<rparr>)))"

text \<open>
  \<open>lcd\<close> closes the file before it looks at the error of \<open>os.Open\<close>; on an error there
  is no file and the \<open>Close\<close> of the nil file does nothing.
\<close>

definition lcd_to :: "'w sys \<Rightarrow> string \<Rightarrow> 'w shellstate \<Rightarrow> 'w returned" where
  "lcd_to sys arg0 s =
     (let d = join (LocalWD s) arg0
      in case call (os_Stat sys d) s of
           (Inl e, s1) \<Rightarrow> (([], Some e), s1)
         | (Inr stats, s1) \<Rightarrow>
             if \<not> IsDir stats then (([], Some (errors_New ''not a directory'')), s1)
             else
               (case call (os_Open sys d) s1 of
                  (Inl e, s2) \<Rightarrow> (([], Some e), s2)
                | (Inr f, s2) \<Rightarrow> (([], None), (close_file sys f s2)\<lparr>LocalWD := d\<rparr>)))"

definition lcd :: "'w sys \<Rightarrow> string list \<Rightarrow> 'w shellstate \<Rightarrow> 'w returned" where
  "lcd sys args s =
     (if length args > 1 then (([], Some (errors_New ''lcd takes only one argument'')), s)
      else if length args = 0 then
        (case call (homedir_Dir sys) s of
           (Inl e, s1) \<Rightarrow> (([], Some e), s1)
         | (Inr name, s1) \<Rightarrow> lcd_to sys (hd (args @ [name])) s1)
      else lcd_to sys (hd args) s)"

section \<open>Transfer\<close>






section \<open>Completion\<close>

definition candidate :: "'w sys \<Rightarrow> path \<Rightarrow> string \<Rightarrow> string \<times> path \<times> path" where
  "candidate sys wd input =
     (if input = [] then ([], wd, [])
      else
        let cand = (if HasSuffix input ''/'' then [] else base input);
            dirname = (if HasSuffix input ''/'' then join wd input else Dir (join wd input));
            relDirname =
              (if \<not> HasPrefix input ''/'' then
                 (case filepath_Rel sys wd dirname of Inl e \<Rightarrow> dirname | Inr r \<Rightarrow> r)
               else dirname)
        in (cand, dirname, relDirname))"

definition completeFiles :: "'w sys \<Rightarrow> string \<Rightarrow> fileinfo list \<Rightarrow> bool \<Rightarrow> bool \<Rightarrow> string list" where
  "completeFiles sys cand files onlyDirs onlyFiles =
     (let props =
            (if onlyDirs then map (\<lambda>i. Name i @ ''/'') (filter IsDir files)
             else if onlyFiles then map Name (filter IsRegular files)
             else map (\<lambda>i. if IsDir i then Name i @ ''/'' else Name i) files);
          props1 = (if cand \<noteq> [] then filter (\<lambda>p. HasPrefix p cand) props else props)
      in if length props1 = 0 then [] else map (quote sys) props1)"

definition completeCd ::
  "'w sys \<Rightarrow> string list \<Rightarrow> 'w shellstate \<Rightarrow> string list \<times> 'w shellstate" where
  "completeCd sys args s =
     (if length args > 1 then ([], s)
      else
        let input = (if length args = 1 then hd args else []) in
        case candidate sys (RemoteWD s) input of
          (cand, dirname, relDirname) \<Rightarrow>
            (case call (client_ReadDir sys dirname) s of
               (Inl e, s1) \<Rightarrow> ([], s1)
             | (Inr files, s1) \<Rightarrow>
                 let props = completeFiles sys cand files True False
                 in if length props = 0 then ([], s1)
                    else (map (\<lambda>p. join relDirname p) props, s1)))"

section \<open>Dispatch\<close>

text \<open>
  \<open>strings.TrimSpace\<close> and \<open>strings.ToLower\<close> on ASCII text: the white space is tab,
  line feed, vertical tab, form feed, carriage return and space, and the letters \<open>A\<close> to
  \<open>Z\<close> are lowered. (Go also knows the white space and the letters beyond ASCII; no
  command name has any.)
\<close>

definition isSpace :: "char \<Rightarrow> bool" where
  "isSpace c = (c \<in> set [CHR 0x09, CHR 0x0A, CHR 0x0B, CHR 0x0C, CHR 0x0D, CHR '' ''])"

definition TrimSpace :: "string \<Rightarrow> string" where
  "TrimSpace l = rev (dropWhile isSpace (rev (dropWhile isSpace l)))"

definition toLower :: "char \<Rightarrow> char" where
  "toLower c =
     (if (65::nat) \<le> of_char c \<and> of_char c \<le> (90::nat)
      then char_of (of_char c + (32::nat)) else c)"

definition ToLower :: "string \<Rightarrow> string" where
  "ToLower l = map toLower l"

text \<open>The command names the REPL offers for completion (the \<open>commands\<close> slice of the sftp action).\<close>

definition commands :: "string list" where
  "commands =
     [''ls'', ''lls'', ''ll'', ''lll'',
      ''get'', ''put'',
      ''cd'', ''lcd'',
      ''less'', ''lless'',
      ''mkdir'', ''lmkdir'', ''mkdirall'', ''lmkdirall'',
      ''pwd'', ''lpwd'',
      ''rename'',
      ''rm'', ''lrm'', ''rmdir'', ''lrmdir'',
      ''exit'', ''logout'',
      ''help'']"

text \<open>
  The handlers are methods of the state; the table \<open>s.methods\<close> that \<open>newShellState\<close>
  builds maps a name to one of them.
\<close>

datatype handler =
  M_less | M_lless | M_ls | M_lls | M_ll | M_lll | M_cd | M_lcd | M_exit | M_pwd | M_lpwd
  | M_get | M_put | M_mkdir | M_mkdirall | M_lmkdir | M_lmkdirall | M_rm | M_lrm | M_rmdir
  | M_lrmdir | M_rename

definition methods :: "(string \<times> handler) list" where
  "methods =
     [(''less'', M_less),
      (''lless'', M_lless),
      (''ls'', M_ls),
      (''lls'', M_lls),
      (''ll'', M_ll),
      (''lll'', M_lll),
      (''cd'', M_cd),
      (''lcd'', M_lcd),
      (''exit'', M_exit),
      (''logout'', M_exit),
      (''pwd'', M_pwd),
      (''lpwd'', M_lpwd),
      (''get'', M_get),
      (''put'', M_put),
      (''mkdir'', M_mkdir),
      (''mkdirall'', M_mkdirall),
      (''lmkdir'', M_lmkdir),
      (''lmkdirall'', M_lmkdirall),
      (''rm'', M_rm),
      (''lrm'', M_lrm),
      (''rmdir'', M_rmdir),
      (''lrmdir'', M_lrmdir),
      (''rename'', M_rename)]"

text \<open>
  \<open>dispatch\<close> up to the call of the handler it has found: it returns by itself, or it
  calls a handler with the remaining words, or it panics (\<open>args[0]\<close> on an empty
  slice). The parser gives the words and its final \<open>Position\<close>.
\<close>

datatype dispatched =
  Returns string "error option"
  | Invokes handler "string list"
  | Panics

definition dispatch :: "'w sys \<Rightarrow> string \<Rightarrow> dispatched" where
  "dispatch sys line =
     (let line1 = TrimSpace line in
      if line1 = [] then Returns [] None
      else
        (case shellwords_Parse sys line1 of
           Inl e \<Rightarrow> Returns [] (Some e)
         | Inr (args, position) \<Rightarrow>
             if position \<noteq> - 1 then Returns [] (Some (errors_New ''incomplete parsing error''))
             else
               (case args of
                  [] \<Rightarrow> Panics
                | a0 # rest \<Rightarrow>
                    let cmd = ToLower a0 in
                    (case map_of methods cmd of
                       None \<Rightarrow> Returns [] (Some (errors_New (''unknown command: '' @ cmd)))
                     | Some fun \<Rightarrow> Invokes fun rest))))"

section \<open>Listing\<close>













section \<open>A model world\<close>

text \<open>
  A small world to run the handlers in: a remote and a local file system, each the list
  of its entries (an absolute cleaned path, and whether it is a directory) in listing
  order, the paths that refuse to be removed, and a journal of the backend calls made.
  It stands for the SFTP server and the local disk in the examples below; the general
  theorems hold for every \<open>sys\<close>.
\<close>

type_synonym fs = "(path \<times> bool) list"

record mworld =
  remote :: fs
  local :: fs
  protected :: "path list"
  journal :: "(string \<times> path) list"

definition record_call :: "string \<Rightarrow> path \<Rightarrow> mworld \<Rightarrow> mworld" where
  "record_call c p w = w\<lparr>journal := journal w @ [(c, p)]\<rparr>"

definition ENOENT :: error where
  "ENOENT = Error ''file does not exist'' False"

definition EPERM :: error where
  "EPERM = Error ''permission denied'' False"

definition ENOTDIR :: error where
  "ENOTDIR = Error ''not a directory'' False"

definition ENOTEMPTY :: error where
  "ENOTEMPTY = Error ''directory not empty'' False"

definition EEXIST :: error where
  "EEXIST = Error ''file exists'' True"

definition entry_info :: "path \<times> bool \<Rightarrow> fileinfo" where
  "entry_info e = \<lparr>Name = Base (fst e), IsDir = snd e, IsRegular = \<not> snd e\<rparr>"

definition children :: "fs \<Rightarrow> path \<Rightarrow> fs" where
  "children f p = filter (\<lambda>e. fst e \<noteq> p \<and> Dir (fst e) = p) f"

definition fs_Stat :: "fs \<Rightarrow> path \<Rightarrow> error + fileinfo" where
  "fs_Stat f p = (case map_of f p of None \<Rightarrow> Inl ENOENT | Some d \<Rightarrow> Inr (entry_info (p, d)))"

definition fs_ReadDir :: "fs \<Rightarrow> path \<Rightarrow> error + fileinfo list" where
  "fs_ReadDir f p =
     (case map_of f p of
        None \<Rightarrow> Inl ENOENT
      | Some d \<Rightarrow> if d then Inr (map entry_info (children f p)) else Inl ENOTDIR)"

definition fs_Remove :: "path list \<Rightarrow> fs \<Rightarrow> path \<Rightarrow> error option \<times> fs" where
  "fs_Remove prot f p =
     (case map_of f p of
        None \<Rightarrow> (Some ENOENT, f)
      | Some d \<Rightarrow>
          if p \<in> set prot then (Some EPERM, f)
          else if children f p \<noteq> [] then (Some ENOTEMPTY, f)
          else (None, filter (\<lambda>e. fst e \<noteq> p) f))"

definition fs_Mkdir :: "fs \<Rightarrow> path \<Rightarrow> error option \<times> fs" where
  "fs_Mkdir f p =
     (case map_of f p of
        Some d \<Rightarrow> (Some EEXIST, f)
      | None \<Rightarrow>
          (case map_of f (Dir p) of
             None \<Rightarrow> (Some ENOENT, f)
           | Some d \<Rightarrow> if d then (None, f @ [(p, True)]) else (Some ENOTDIR, f)))"

definition fs_Open :: "fs \<Rightarrow> path \<Rightarrow> error + handle" where
  "fs_Open f p = (case map_of f p of None \<Rightarrow> Inl ENOENT | Some d \<Rightarrow> Inr 0)"

definition fs_Create :: "fs \<Rightarrow> path \<Rightarrow> (error + handle) \<times> fs" where
  "fs_Create f p =
     (case map_of f p of
        Some d \<Rightarrow> if d then (Inl (Error ''is a directory'' False), f) else (Inr 1, f)
      | None \<Rightarrow>
          (case map_of f (Dir p) of
             None \<Rightarrow> (Inl ENOENT, f)
           | Some d \<Rightarrow> if d then (Inr 1, f @ [(p, False)]) else (Inl ENOTDIR, f)))"

text \<open>
  \<open>os.RemoveAll\<close> removes the path and everything below it that it can, and returns the
  first error it meets: here a protected entry stays, with the directories above it.
\<close>

definition below :: "path \<Rightarrow> path \<Rightarrow> bool" where
  "below p q = (q = p \<or> prefix (p @ ''/'') q)"

definition fs_RemoveAll :: "path list \<Rightarrow> fs \<Rightarrow> path \<Rightarrow> error option \<times> fs" where
  "fs_RemoveAll prot f p =
     (let stuck = filter (\<lambda>e. below p (fst e) \<and> fst e \<in> set prot) f
      in (if stuck = [] then None else Some EPERM,
          filter (\<lambda>e. \<not> below p (fst e) \<or> (\<exists>k \<in> set stuck. below (fst e) (fst k))) f))"

text \<open>Stand-ins for the pure helpers, enough for the examples.\<close>

definition m_Rel :: "path \<Rightarrow> path \<Rightarrow> error + path" where
  "m_Rel basepath targpath =
     (if Clean targpath = Clean basepath then Inr ''.''
      else if prefix (Clean basepath @ ''/'') (Clean targpath)
      then Inr (drop (length (Clean basepath) + 1) (Clean targpath))
      else Inl (Error ''Rel: cannot make relative'' False))"

fun m_words :: "string \<Rightarrow> string list" where
  "m_words [] = [[]]"
| "m_words (c # cs) =
     (if c = CHR '' '' then [] # m_words cs
      else (c # hd (m_words cs)) # tl (m_words cs))"

definition m_Parse :: "string \<Rightarrow> error + (string list \<times> int)" where
  "m_Parse line = Inr (filter (\<lambda>x. x \<noteq> []) (m_words line), - 1)"

definition m_quote :: "string \<Rightarrow> string" where
  "m_quote p = (if CHR '' '' \<in> set p then [CHR 0x27] @ p @ [CHR 0x27] else p)"

definition m_Format :: "nat \<Rightarrow> bool \<Rightarrow> (fileinfo \<times> string) list \<Rightarrow> string" where
  "m_Format width long stats = concat (map (\<lambda>x. snd x @ '' '') stats)"

definition msys :: "mworld sys" where
  "msys =
     \<lparr>client_Stat = (\<lambda>p w. (fs_Stat (remote w) p, record_call ''client.Stat'' p w)),
      client_ReadDir = (\<lambda>p w. (fs_ReadDir (remote w) p, record_call ''client.ReadDir'' p w)),
      client_Remove = (\<lambda>p w. case fs_Remove (protected w) (remote w) p of
                         (r, f) \<Rightarrow> (r, record_call ''client.Remove'' p (w\<lparr>remote := f\<rparr>))),
      client_Mkdir = (\<lambda>p w. case fs_Mkdir (remote w) p of
                         (r, f) \<Rightarrow> (r, record_call ''client.Mkdir'' p (w\<lparr>remote := f\<rparr>))),
      client_Open = (\<lambda>p w. (fs_Open (remote w) p, record_call ''client.Open'' p w)),
      client_Create = (\<lambda>p w. case fs_Create (remote w) p of
                         (r, f) \<Rightarrow> (r, record_call ''client.Create'' p (w\<lparr>remote := f\<rparr>))),
      os_Stat = (\<lambda>p w. (fs_Stat (local w) p, record_call ''os.Stat'' p w)),
      ioutil_ReadDir = (\<lambda>p w. (fs_ReadDir (local w) p, record_call ''ioutil.ReadDir'' p w)),
      os_RemoveAll = (\<lambda>p w. case fs_RemoveAll (protected w) (local w) p of
                         (r, f) \<Rightarrow> (r, record_call ''os.RemoveAll'' p (w\<lparr>local := f\<rparr>))),
      os_Mkdir = (\<lambda>p w. case fs_Mkdir (local w) p of
                         (r, f) \<Rightarrow> (r, record_call ''os.Mkdir'' p (w\<lparr>local := f\<rparr>))),
      os_Open = (\<lambda>p w. (fs_Open (local w) p, record_call ''os.Open'' p w)),
      os_Create = (\<lambda>p w. case fs_Create (local w) p of
                         (r, f) \<Rightarrow> (r, record_call ''os.Create'' p (w\<lparr>local := f\<rparr>))),
      io_Copy = (\<lambda>dest source w. (None, w)),
      file_Close = (\<lambda>f w. w),
      homedir_Dir = (\<lambda>w. (Inr ''/home/u'', w)),
      lib_SFTPGlob = (\<lambda>wd pattern w. (Inr [pattern], w)),
      lib_LocalGlob = (\<lambda>wd pattern w. (Inr [pattern], w)),
      filepath_Rel = m_Rel,
      shellwords_Parse = m_Parse,
      quote = m_quote,
      lib_FormatListOfFiles = m_Format\<rparr>"

definition session :: "mworld \<Rightarrow> mworld shellstate" where
  "session w =
     \<lparr>LocalWD = ''/home/u'', RemoteWD = ''/srv'', initRemoteWD = ''/srv'',
      externalPager = False, info = [], err = [], world = w\<rparr>"

text \<open>
  Two worlds for the examples. In the first the remote directory \<open>/srv/d\<close> holds a file
  that refuses to be removed, a sub-directory and another file; in the second the remote
  working directory holds three plain files.
\<close>

definition tree_world :: mworld where
  "tree_world =
     \<lparr>remote = [(''/'', True), (''/srv'', True), (''/srv/d'', True), (''/srv/d/x'', False),
                (''/srv/d/sub'', True), (''/srv/d/sub/z'', False), (''/srv/d/y'', False)],
      local = [(''/'', True), (''/home'', True), (''/home/u'', True)],
      protected = [''/srv/d/x''],
      journal = []\<rparr>"

definition flat_world :: mworld where
  "flat_world =
     \<lparr>remote = [(''/'', True), (''/srv'', True), (''/srv/a'', False), (''/srv/c'', False),
                (''/srv/k'', False)],
      local = [(''/'', True), (''/home'', True), (''/home/u'', True), (''/home/u/f'', False)],
      protected = [],
      journal = []\<rparr>"



definition foo_world :: mworld where
  "foo_world =
     \<lparr>remote = [(''/'', True), (''/srv'', True), (''/srv/foo'', True), (''/srv/foobar'', True),
                (''/srv/bar.txt'', False)],
      local = [(''/'', True)],
      protected = [],
      journal = []\<rparr>"


text \<open>The three entries of the completion example.\<close>

definition foo_dir :: fileinfo where
  "foo_dir = \<lparr>Name = ''foo'', IsDir = True, IsRegular = False\<rparr>"

definition foobar_dir :: fileinfo where
  "foobar_dir = \<lparr>Name = ''foobar'', IsDir = True, IsRegular = False\<rparr>"

definition bar_txt :: fileinfo where
  "bar_txt = \<lparr>Name = ''bar.txt'', IsDir = False, IsRegular = True\<rparr>"

section \<open>The failures of a batch remove\<close>


section \<open>Facts about the path algebra\<close>

lemma elements_not_Nil [simp]: "elements p \<noteq> []"
  by (cases p) auto

lemma elements_append_sep:
  "elements (a @ Separator # b) = elements a @ elements b"
proof (induction a)
  case Nil
  show ?case by simp
next
  case (Cons c a)
  show ?case
  proof (cases "c = Separator")
    case True
    with Cons show ?thesis by simp
  next
    case False
    with Cons show ?thesis by (simp add: hd_append)
  qed
qed

lemma clean_steps_grow:
  "\<forall>c \<in> set cs. c \<noteq> ''..'' \<Longrightarrow> \<exists>added. foldl (clean_step r) out cs = out @ added"
proof (induction cs arbitrary: out)
  case Nil
  show ?case by simp
next
  case (Cons c cs)
  from Cons.prems have c: "c \<noteq> ''..''" and rest: "\<forall>c \<in> set cs. c \<noteq> ''..''"
    by simp_all
  from c have "\<exists>m1. clean_step r out c = out @ m1"
    by (simp add: clean_step_def)
  then obtain m1 where m1: "clean_step r out c = out @ m1" by blast
  from Cons.IH [OF rest, of "out @ m1"] obtain m2
    where "foldl (clean_step r) (out @ m1) cs = (out @ m1) @ m2" by blast
  with m1 show ?case by simp
qed

lemma joinsep_append_prefix: "prefix (joinsep xs) (joinsep (xs @ ys))"
proof (induction xs rule: joinsep.induct)
  case 1
  show ?case by simp
next
  case (2 x)
  show ?case by (cases ys) simp_all
next
  case (3 x y ys')
  then show ?case by simp
qed

lemma clean_out_prefix:
  "r \<or> out \<noteq> [] \<Longrightarrow> prefix (clean_out r out) (clean_out r (out @ added))"
  by (auto simp: clean_out_def joinsep_append_prefix)

lemma Clean_extend_prefix:
  assumes cl: "Clean wd = wd" and nd: "wd \<noteq> ''.''"
    and nodd: "\<forall>c \<in> set (elements p). c \<noteq> ''..''"
  shows "prefix wd (Clean (wd @ Separator # p))"
proof -
  from cl have ne: "wd \<noteq> []" by (auto simp: Clean_def split: if_splits)
  define r where "r = rooted wd"
  define out where "out = foldl (clean_step r) [] (elements wd)"
  from cl ne have wd: "clean_out r out = wd"
    by (simp add: Clean_def r_def out_def)
  with nd have ok: "r \<or> out \<noteq> []" by (auto simp: clean_out_def)
  from ne have r': "rooted (wd @ Separator # p) = r"
    by (simp add: rooted_def r_def)
  from clean_steps_grow [OF nodd, of r out] obtain added
    where added: "foldl (clean_step r) out (elements p) = out @ added" by blast
  have "Clean (wd @ Separator # p) = clean_out r (out @ added)"
    using added by (simp add: Clean_def r' elements_append_sep out_def)
  with clean_out_prefix [OF ok, of added] wd show ?thesis by simp
qed

lemma joinsep_snoc:
  "joinsep (out @ [x]) = (if out = [] then x else joinsep out @ Separator # x)"
  by (induction out rule: joinsep.induct) simp_all

lemma elements_no_sep: "Separator \<notin> set name \<Longrightarrow> elements name = [name]"
  by (induction name) auto

lemma strip_last_element:
  assumes "Separator \<notin> set name"
  shows "rev (dropWhile (\<lambda>c. c \<noteq> Separator) (rev (p @ Separator # name))) = p @ [Separator]"
proof -
  have "dropWhile (\<lambda>c. c \<noteq> Separator) (rev name @ Separator # rev p) = Separator # rev p"
    using assms by (induction name rule: rev_induct) auto
  then show ?thesis by simp
qed

lemma Clean_trailing_sep:
  assumes "Clean wd = wd"
  shows "Clean (wd @ [Separator]) = wd"
proof -
  from assms have ne: "wd \<noteq> []" by (auto simp: Clean_def split: if_splits)
  then have r: "rooted (wd @ [Separator]) = rooted wd" by (simp add: rooted_def)
  have "elements (wd @ Separator # []) = elements wd @ elements []"
    by (rule elements_append_sep)
  then have "elements (wd @ [Separator]) = elements wd @ [[]]" by simp
  with ne r assms show ?thesis by (simp add: Clean_def clean_step_def)
qed

lemma Dir_Clean_name:
  assumes cl: "Clean wd = wd" and nd: "wd \<noteq> ''.''"
    and nm: "Separator \<notin> set name" "name \<noteq> []" "name \<noteq> ''.''" "name \<noteq> ''..''"
  shows "Dir (Clean (wd @ Separator # name)) = wd"
proof -
  from cl have ne: "wd \<noteq> []" by (auto simp: Clean_def split: if_splits)
  define r where "r = rooted wd"
  define out where "out = foldl (clean_step r) [] (elements wd)"
  from cl ne have wd: "clean_out r out = wd" by (simp add: Clean_def r_def out_def)
  from ne have r': "rooted (wd @ Separator # name) = r" by (simp add: rooted_def r_def)
  have X: "Clean (wd @ Separator # name) = clean_out r (out @ [name])"
    using nm ne by (simp add: Clean_def r' elements_append_sep elements_no_sep out_def
        clean_step_def)
  show ?thesis
  proof (cases "out = []")
    case True
    with wd nd have rt: "r" and w: "wd = [Separator]" by (auto simp: clean_out_def split: if_splits)
    from True rt have "clean_out r (out @ [name]) = [] @ Separator # name"
      by (simp add: clean_out_def)
    then have "Dir (Clean (wd @ Separator # name)) = Clean ([] @ [Separator])"
      unfolding X Dir_def using strip_last_element [OF nm(1), of "[]"] by simp
    also have "\<dots> = [Separator]"
      by (simp add: Clean_def rooted_def clean_step_def clean_out_def)
    finally show ?thesis using w by simp
  next
    case False
    with wd have "clean_out r (out @ [name]) = wd @ Separator # name"
      by (auto simp: clean_out_def joinsep_snoc)
    then have "Dir (Clean (wd @ Separator # name)) = Clean (wd @ [Separator])"
      unfolding X Dir_def using strip_last_element [OF nm(1), of wd] by simp
    with Clean_trailing_sep [OF cl] show ?thesis by simp
  qed
qed

lemma candidate_foo:
  assumes cl: "Clean wd = wd" and nd: "wd \<noteq> ''.''"
    and rel: "filepath_Rel sys wd wd = Inr ''.''"
  shows "candidate sys wd ''foo'' = (''foo'', wd, ''.'')"
proof -
  from cl have ne: "wd \<noteq> []" by (auto simp: Clean_def split: if_splits)
  have b: "base ''foo'' = ''foo''" by code_simp
  have p: "\<not> HasPrefix ''foo'' ''/''" by code_simp
  have s: "\<not> HasSuffix ''foo'' ''/''" by code_simp
  have "join wd ''foo'' = Clean (wd @ Separator # ''foo'')"
    using p s ne by (simp add: join_def Join_def)
  moreover have "Dir (Clean (wd @ Separator # ''foo'')) = wd"
    by (rule Dir_Clean_name [OF cl nd]) (simp_all add: Separator_def)
  ultimately have d: "Dir (join wd ''foo'') = wd" by simp
  show ?thesis using b p s d rel by (simp add: candidate_def)
qed

section \<open>Facts about the recursive delete\<close>






text \<open>
  The allowance of nested calls is only a bound: a result obtained with some allowance is
  the result with every larger one.
\<close>

lemma rmdir_allowance_mono:
  "(\<forall>r. rmdir_inner sys n dirname s = Some r \<longrightarrow> rmdir_inner sys (Suc n) dirname s = Some r)"
  "(\<forall>r. rmdir_files sys n dirname files acc s = Some r
        \<longrightarrow> rmdir_files sys (Suc n) dirname files acc s = Some r)"
proof (induction sys n dirname s and sys n dirname files acc s
       rule: rmdir_inner_rmdir_files.induct)
  case (1 sys dirname s)
  show ?case by simp
next
  case (2 sys n dirname s)
  show ?case
  proof (intro allI impI)
    fix r
    assume r: "rmdir_inner sys (Suc n) dirname s = Some r"
    obtain r1 s1 where c1: "call (client_Stat sys dirname) s = (r1, s1)" by force
    show "rmdir_inner sys (Suc (Suc n)) dirname s = Some r"
    proof (cases r1)
      case (Inl e)
      with r c1 show ?thesis by simp
    next
      case (Inr stats)
      show ?thesis
      proof (cases "IsDir stats")
        case False
        with r c1 Inr show ?thesis by simp
      next
        case True
        obtain r2 s2 where c2: "call (client_ReadDir sys dirname) s1 = (r2, s2)" by force
        show ?thesis
        proof (cases r2)
          case (Inl e)
          with r c1 \<open>r1 = Inr stats\<close> True c2 show ?thesis by simp
        next
          case (Inr files)
          from r c1 \<open>r1 = Inr stats\<close> True c2 Inr
          obtain q where l: "rmdir_files sys n dirname files None s2 = Some q"
            by (cases "rmdir_files sys n dirname files None s2") auto
          from "2.IH" [OF c1 [symmetric] \<open>r1 = Inr stats\<close> _ c2 [symmetric] Inr] True l
          have l': "rmdir_files sys (Suc n) dirname files None s2 = Some q" by simp
          from r c1 \<open>r1 = Inr stats\<close> True c2 Inr l
          have "(case q of (None, s3) \<Rightarrow> Some (call (client_Remove sys dirname) s3)
                 | (Some e, s3) \<Rightarrow> Some (Some e, s3)) = Some r"
            by simp
          with c1 \<open>r1 = Inr stats\<close> True c2 Inr l' show ?thesis
            by (simp del: rmdir_files.simps)
        qed
      qed
    qed
  qed
next
  case (3 sys n dirname e s)
  show ?case by simp
next
  case (4 sys n dirname f files e s)
  show ?case
  proof (intro allI impI)
    fix r
    assume r: "rmdir_files sys n dirname (f # files) e s = Some r"
    define path where "path = join dirname (Name f)"
    show "rmdir_files sys (Suc n) dirname (f # files) e s = Some r"
    proof (cases "IsDir f")
      case True
      from r True obtain r1 s1 where c1: "rmdir_inner sys n path s = Some (r1, s1)"
        by (cases "rmdir_inner sys n path s") (auto simp: path_def Let_def)
      from "4.IH"(1) [OF path_def True] c1
      have c1': "rmdir_inner sys (Suc n) path s = Some (r1, s1)" by simp
      show ?thesis
      proof (cases r1)
        case None
        with r True c1 have l: "rmdir_files sys n dirname files e s1 = Some r"
          by (simp add: path_def Let_def)
        from "4.IH"(2) [OF path_def True c1 [unfolded None]] l
        have "rmdir_files sys (Suc n) dirname files e s1 = Some r" by simp
        with True c1' None show ?thesis
          by (simp add: path_def Let_def del: rmdir_inner.simps)
      next
        case (Some e1)
        define acc1 where "acc1 = (if e = None then Some e1 else e)"
        define sa where "sa = s_err (''rmdir on '' @ path @ '': '' @ Msg e1) s1"
        from Some r True c1 have
          l: "rmdir_files sys n dirname files acc1 sa = Some r"
          by (simp add: path_def Let_def sa_def acc1_def)
        from "4.IH"(3) [OF path_def True c1 [unfolded Some] refl] l
        have "rmdir_files sys (Suc n) dirname files acc1 sa = Some r"
          unfolding sa_def acc1_def by blast
        with True c1' Some show ?thesis
          unfolding acc1_def sa_def
          by (simp add: path_def Let_def del: rmdir_inner.simps)
      qed
    next
      case False
      obtain r1 s1 where c1: "call (client_Remove sys path) s = (r1, s1)" by force
      show ?thesis
      proof (cases r1)
        case None
        with r False c1 have l: "rmdir_files sys n dirname files e s1 = Some r"
          by (simp add: path_def Let_def)
        from "4.IH"(4) [OF path_def False c1 [symmetric, unfolded None] refl] l
        have "rmdir_files sys (Suc n) dirname files e s1 = Some r" by simp
        with False c1 None show ?thesis by (simp add: path_def Let_def)
      next
        case (Some e1)
        define acc1 where "acc1 = (if e = None then Some e1 else e)"
        define sb where "sb = s_err (''rm on '' @ path @ '': '' @ Msg e1) s1"
        from Some r False c1 have
          l: "rmdir_files sys n dirname files acc1 sb = Some r"
          by (simp add: path_def Let_def sb_def acc1_def)
        from "4.IH"(5) [OF path_def False c1 [symmetric, unfolded Some] refl] l
        have "rmdir_files sys (Suc n) dirname files acc1 sb = Some r"
          unfolding sb_def acc1_def by blast
        with False c1 Some show ?thesis
          unfolding acc1_def sb_def by (simp add: path_def Let_def)
      qed
    qed
  qed
qed

lemma rmdir_allowance_add:
  "rmdir_inner sys n dirname s = Some r \<Longrightarrow> rmdir_inner sys (n + k) dirname s = Some r"
proof (induction k)
  case 0
  then show ?case by simp
next
  case (Suc k)
  then have "rmdir_inner sys (n + k) dirname s = Some r" by simp
  with rmdir_allowance_mono(1) [of sys "n + k" dirname s] show ?case by simp
qed


section \<open>Facts about the batch remove\<close>


lemma rm_args_RemoteWD: "RemoteWD (rm_args sys args s) = RemoteWD s"
  by (induction args arbitrary: s)
     (simp_all add: call_def s_err_def Let_def split: prod.splits option.splits)

section \<open>Facts about the navigation handlers\<close>

lemma call_keeps_wd:
  "call f s = (r, s1) \<Longrightarrow> RemoteWD s1 = RemoteWD s \<and> LocalWD s1 = LocalWD s"
  by (auto simp: call_def split: prod.splits)

lemma cd_error_keeps_wd:
  assumes "snd (fst (cd sys args s)) \<noteq> None"
  shows "RemoteWD (snd (cd sys args s)) = RemoteWD s"
proof (cases "length args > 1")
  case True
  then show ?thesis by (simp add: cd_def)
next
  case False
  define d where
    "d = join (RemoteWD s) (hd (if length args = 0 then args @ [initRemoteWD s] else args))"
  obtain r1 s1 where c1: "call (client_Stat sys d) s = (r1, s1)" by force
  from call_keeps_wd [OF c1] have k1: "RemoteWD s1 = RemoteWD s" by simp
  show ?thesis
  proof (cases r1)
    case (Inl e)
    with False c1 k1 show ?thesis by (simp add: cd_def Let_def d_def)
  next
    case (Inr stats)
    show ?thesis
    proof (cases "IsDir stats")
      case False
      with \<open>\<not> length args > 1\<close> Inr c1 k1 show ?thesis by (simp add: cd_def Let_def d_def)
    next
      case True
      obtain r2 s2 where c2: "call (client_Open sys d) s1 = (r2, s2)" by force
      from call_keeps_wd [OF c2] k1 have k2: "RemoteWD s2 = RemoteWD s" by simp
      show ?thesis
      proof (cases r2)
        case (Inl e)
        with \<open>\<not> length args > 1\<close> Inr True c1 c2 k2 show ?thesis
          by (simp add: cd_def Let_def d_def)
      next
        case (Inr f)
        with \<open>\<not> length args > 1\<close> \<open>r1 = Inr stats\<close> True c1 c2 assms show ?thesis
          by (simp add: cd_def Let_def d_def)
      qed
    qed
  qed
qed

lemma lcd_to_error_keeps_wd:
  assumes "snd (fst (lcd_to sys a s)) \<noteq> None"
  shows "LocalWD (snd (lcd_to sys a s)) = LocalWD s"
proof -
  define d where "d = join (LocalWD s) a"
  obtain r1 s1 where c1: "call (os_Stat sys d) s = (r1, s1)" by force
  from call_keeps_wd [OF c1] have k1: "LocalWD s1 = LocalWD s" by simp
  show ?thesis
  proof (cases r1)
    case (Inl e)
    with c1 k1 show ?thesis by (simp add: lcd_to_def Let_def d_def)
  next
    case (Inr stats)
    show ?thesis
    proof (cases "IsDir stats")
      case False
      with Inr c1 k1 show ?thesis by (simp add: lcd_to_def Let_def d_def)
    next
      case True
      obtain r2 s2 where c2: "call (os_Open sys d) s1 = (r2, s2)" by force
      from call_keeps_wd [OF c2] k1 have k2: "LocalWD s2 = LocalWD s" by simp
      show ?thesis
      proof (cases r2)
        case (Inl e)
        with Inr True c1 c2 k2 show ?thesis by (simp add: lcd_to_def Let_def d_def)
      next
        case (Inr f)
        with \<open>r1 = Inr stats\<close> True c1 c2 assms show ?thesis
          by (simp add: lcd_to_def Let_def d_def)
      qed
    qed
  qed
qed

lemma lcd_error_keeps_wd:
  assumes "snd (fst (lcd sys args s)) \<noteq> None"
  shows "LocalWD (snd (lcd sys args s)) = LocalWD s"
proof (cases "length args > 1")
  case True
  then show ?thesis by (simp add: lcd_def)
next
  case False
  show ?thesis
  proof (cases "length args = 0")
    case False
    with \<open>\<not> length args > 1\<close> assms have "snd (fst (lcd_to sys (hd args) s)) \<noteq> None"
      by (simp add: lcd_def)
    from lcd_to_error_keeps_wd [OF this] False \<open>\<not> length args > 1\<close> show ?thesis
      by (simp add: lcd_def)
  next
    case True
    obtain r1 s1 where c1: "call (homedir_Dir sys) s = (r1, s1)" by force
    from call_keeps_wd [OF c1] have k1: "LocalWD s1 = LocalWD s" by simp
    show ?thesis
    proof (cases r1)
      case (Inl e)
      with True c1 k1 show ?thesis by (simp add: lcd_def)
    next
      case (Inr name)
      with True c1 assms have "snd (fst (lcd_to sys name s1)) \<noteq> None"
        by (simp add: lcd_def)
      from lcd_to_error_keeps_wd [OF this] Inr True c1 k1 show ?thesis
        by (simp add: lcd_def)
    qed
  qed
qed

section \<open>Claims\<close>

text \<open>
  C3 (as stated, refuted). The claim says that \<open>join wd p\<close> starts with \<open>wd\<close> for every
  \<open>wd\<close> and every \<open>p\<close> not starting with the separator. \<open>join\<close> cleans the joined path,
  so a \<open>..\<close> element in \<open>p\<close> leaves \<open>wd\<close>, a working directory that is not in
  cleaned form is rewritten, and the working directory \<open>.\<close> disappears.
\<close>

theorem join_starts_with_wd_counterexample:
  "\<not> HasPrefix ''..'' ''/'' \<and> \<not> HasPrefix (join ''/a/b'' ''..'') ''/a/b''
   \<and> \<not> HasPrefix ''x'' ''/'' \<and> \<not> HasPrefix (join ''/a//b'' ''x'') ''/a//b''
   \<and> \<not> HasPrefix (join ''.'' ''x'') ''.''"
  by code_simp

text \<open>
  C3 (amended). For every path \<open>p\<close> that does not start with the separator: if the
  working directory \<open>wd\<close> is in cleaned form (and is not \<open>.\<close>) and \<open>p\<close> has no \<open>..\<close>
  element, then \<open>join wd p\<close> starts with \<open>wd\<close>; and for every \<open>wd\<close>, if \<open>p\<close> ends with
  the separator then so does \<open>join wd p\<close>.
\<close>

theorem join_prefix_suffix:
  assumes "\<not> HasPrefix p ''/''"
  shows "(Clean wd = wd \<and> wd \<noteq> ''.'' \<and> ''..'' \<notin> set (elements p)
            \<longrightarrow> HasPrefix (join wd p) wd)
         \<and> (HasSuffix p ''/'' \<longrightarrow> HasSuffix (join wd p) ''/'')"
proof (intro conjI impI)
  assume h: "Clean wd = wd \<and> wd \<noteq> ''.'' \<and> ''..'' \<notin> set (elements p)"
  then have ne: "wd \<noteq> []" by (auto simp: Clean_def split: if_splits)
  from h have nodd: "\<forall>c \<in> set (elements p). c \<noteq> ''..''" by auto
  from h have "prefix wd (Clean (wd @ Separator # p))"
    using Clean_extend_prefix [OF _ _ nodd, of wd] by simp
  then have "prefix wd (Join wd p)" using ne by (simp add: Join_def)
  then show "HasPrefix (join wd p) wd"
    using assms by (auto simp: join_def HasPrefix_def prefix_def)
next
  assume "HasSuffix p ''/''"
  with assms show "HasSuffix (join wd p) ''/''"
    by (simp add: join_def HasSuffix_def suffix_def)
qed

theorem join_prefix_suffix_witness:
  "\<not> HasPrefix ''sub/'' ''/'' \<and> Clean ''/home/u'' = ''/home/u'' \<and> ''/home/u'' \<noteq> ''.''
   \<and> ''..'' \<notin> set (elements ''sub/'') \<and> HasSuffix ''sub/'' ''/''
   \<and> HasPrefix (join ''/home/u'' ''sub/'') ''/home/u''
   \<and> HasSuffix (join ''/home/u'' ''sub/'') ''/''
   \<and> join ''/home/u'' ''sub/'' = ''/home/u/sub/''"
proof -
  have a: "\<not> HasPrefix ''sub/'' ''/''" by code_simp
  have b: "Clean ''/home/u'' = ''/home/u''" by code_simp
  have c: "''..'' \<notin> set (elements ''sub/'')" by code_simp
  have d: "HasSuffix ''sub/'' ''/''" by code_simp
  have e: "join ''/home/u'' ''sub/'' = ''/home/u/sub/''" by code_simp
  from join_prefix_suffix [OF a, of "''/home/u''"] a b c d e show ?thesis by simp
qed




text \<open>
  C6. A batch remove \<open>rm a b c\<close> in which the \<open>Remove\<close> of \<open>b\<close> fails (it does not
  exist) and those of \<open>a\<close> and \<open>c\<close> succeed (they exist): all three calls are made in
  order, so \<open>a\<close> and \<open>c\<close> are removed; the error sink receives exactly one message, the
  one for \<open>b\<close>; and the command returns the empty result and no error.
\<close>

theorem rm_batch_missing_middle:
  assumes a: "client_Remove sys (join (RemoteWD s) a) (world s) = (None, w1)"
    and b: "client_Remove sys (join (RemoteWD s) b) w1 = (Some e, w2)"
    and c: "client_Remove sys (join (RemoteWD s) c) w2 = (None, w3)"
  shows "rm sys [a, b, c] s
           = (([], None), s\<lparr>world := w3, err := err s @ [b @ '': '' @ Msg e]\<rparr>)"
  using assms by (simp add: rm_def call_def s_err_def)

theorem rm_batch_missing_middle_witness:
  "rm msys [''a'', ''b'', ''c''] (session flat_world)
     = (([], None),
        session flat_world
          \<lparr>world := \<lparr>remote = [(''/'', True), (''/srv'', True), (''/srv/k'', False)],
                      local = local flat_world, protected = [],
                      journal = [(''client.Remove'', ''/srv/a''), (''client.Remove'', ''/srv/b''),
                                 (''client.Remove'', ''/srv/c'')]\<rparr>,
            err := [''b: file does not exist'']\<rparr>)"
proof -
  define w1 where "w1 = snd (client_Remove msys ''/srv/a'' flat_world)"
  define w2 where "w2 = snd (client_Remove msys ''/srv/b'' w1)"
  define w3 where "w3 = snd (client_Remove msys ''/srv/c'' w2)"
  have a: "client_Remove msys (join (RemoteWD (session flat_world)) ''a'')
             (world (session flat_world)) = (None, w1)"
    unfolding w1_def by code_simp
  have b: "client_Remove msys (join (RemoteWD (session flat_world)) ''b'') w1 = (Some ENOENT, w2)"
    unfolding w1_def w2_def by code_simp
  have c: "client_Remove msys (join (RemoteWD (session flat_world)) ''c'') w2 = (None, w3)"
    unfolding w1_def w2_def w3_def by code_simp
  have r: "session flat_world
             \<lparr>world := w3, err := err (session flat_world) @ [''b'' @ '': '' @ Msg ENOENT]\<rparr>
     = session flat_world
          \<lparr>world := \<lparr>remote = [(''/'', True), (''/srv'', True), (''/srv/k'', False)],
                      local = local flat_world, protected = [],
                      journal = [(''client.Remove'', ''/srv/a''), (''client.Remove'', ''/srv/b''),
                                 (''client.Remove'', ''/srv/c'')]\<rparr>,
            err := [''b: file does not exist'']\<rparr>"
    unfolding w1_def w2_def w3_def by code_simp
  from rm_batch_missing_middle [OF a b c] r show ?thesis by simp
qed

text \<open>
  C7. Whenever \<open>cd\<close> returns an error the field \<open>RemoteWD\<close> is what it was, and whenever
  \<open>lcd\<close> returns an error the field \<open>LocalWD\<close> is what it was: a working directory
  changes only when the handler returns no error.
\<close>

theorem cd_lcd_error_keeps_wd:
  "(snd (fst (cd sys args s)) \<noteq> None \<longrightarrow> RemoteWD (snd (cd sys args s)) = RemoteWD s)
   \<and> (snd (fst (lcd sys args s)) \<noteq> None \<longrightarrow> LocalWD (snd (lcd sys args s)) = LocalWD s)"
  using cd_error_keeps_wd lcd_error_keeps_wd by blast

theorem cd_lcd_error_keeps_wd_witness:
  "snd (fst (cd msys [''a''] (session flat_world))) = Some (errors_New ''not a directory'')
   \<and> RemoteWD (snd (cd msys [''a''] (session flat_world))) = ''/srv''
   \<and> snd (fst (lcd msys [''nowhere''] (session flat_world))) = Some ENOENT
   \<and> LocalWD (snd (lcd msys [''nowhere''] (session flat_world))) = ''/home/u''"
proof -
  have a: "snd (fst (cd msys [''a''] (session flat_world))) = Some (errors_New ''not a directory'')"
    by code_simp
  have b: "snd (fst (lcd msys [''nowhere''] (session flat_world))) = Some ENOENT"
    by code_simp
  have c: "RemoteWD (session flat_world) = ''/srv''" "LocalWD (session flat_world) = ''/home/u''"
    by (simp_all add: session_def)
  from cd_lcd_error_keeps_wd [of msys "[''a'']" "session flat_world"]
       cd_lcd_error_keeps_wd [of msys "[''nowhere'']" "session flat_world"] a b c
  show ?thesis by simp
qed

text \<open>
  C9. The list of command names offered for completion holds \<open>help\<close>; the handler table
  has no entry for it; so, the parser giving the single word \<open>help\<close>, dispatching the
  line \<open>help\<close> returns the error \<open>unknown command: help\<close> and calls no handler.
\<close>

theorem help_is_unknown_command:
  "''help'' \<in> set commands \<and> map_of methods ''help'' = None
   \<and> (shellwords_Parse sys ''help'' = Inr ([''help''], - 1)
        \<longrightarrow> dispatch sys ''help'' = Returns [] (Some (errors_New ''unknown command: help'')))"
proof -
  have a: "''help'' \<in> set commands" by code_simp
  have b: "map_of methods ''help'' = None" by code_simp
  have c: "TrimSpace ''help'' = ''help''" by code_simp
  have d: "ToLower ''help'' = ''help''" by code_simp
  show ?thesis using a b by (simp add: dispatch_def c d)
qed

theorem help_is_unknown_command_witness:
  "shellwords_Parse msys ''help'' = Inr ([''help''], - 1)
   \<and> dispatch msys ''help'' = Returns [] (Some (errors_New ''unknown command: help''))"
proof -
  have a: "shellwords_Parse msys ''help'' = Inr ([''help''], - 1)" by code_simp
  from help_is_unknown_command [of msys] a show ?thesis by simp
qed

text \<open>
  C10. When the remote \<open>Stat\<close> of the argument succeeds and reports a non-directory, the
  helper calls \<open>Remove\<close> on it and returns the result of that call; it does not fail
  with a "not a directory" error, and no nested call is needed.
\<close>

theorem rmdir_non_directory:
  assumes "client_Stat sys dirname (world s) = (Inr stats, w1)" and "\<not> IsDir stats"
  shows "rmdir_inner sys (Suc n) dirname s
           = Some (call (client_Remove sys dirname) (s\<lparr>world := w1\<rparr>))"
  using assms by (simp add: call_def)

theorem rmdir_non_directory_witness:
  "rmdir_inner msys (Suc 0) ''/srv/d/y'' (session tree_world)
     = Some (None, session tree_world
          \<lparr>world := tree_world\<lparr>remote := filter (\<lambda>e. fst e \<noteq> ''/srv/d/y'') (remote tree_world),
              journal := [(''client.Stat'', ''/srv/d/y''), (''client.Remove'', ''/srv/d/y'')]\<rparr>\<rparr>)"
proof -
  define w1 where "w1 = record_call ''client.Stat'' ''/srv/d/y'' tree_world"
  have st: "client_Stat msys ''/srv/d/y'' (world (session tree_world))
              = (Inr (entry_info (''/srv/d/y'', False)), w1)"
    unfolding w1_def by code_simp
  have dir: "\<not> IsDir (entry_info (''/srv/d/y'', False))" by code_simp
  have r: "call (client_Remove msys ''/srv/d/y'') (session tree_world\<lparr>world := w1\<rparr>)
     = (None, session tree_world
          \<lparr>world := tree_world\<lparr>remote := filter (\<lambda>e. fst e \<noteq> ''/srv/d/y'') (remote tree_world),
              journal := [(''client.Stat'', ''/srv/d/y''), (''client.Remove'', ''/srv/d/y'')]\<rparr>\<rparr>)"
    unfolding w1_def by code_simp
  from rmdir_non_directory [OF st dir, of 0] r show ?thesis by simp
qed









text \<open>
  C8. Completion for \<open>cd\<close> of the word \<open>foo\<close>, in a cleaned remote working directory
  whose entries are the directories \<open>foo\<close> and \<open>foobar\<close> and the regular file
  \<open>bar.txt\<close> (in any listing order), with \<open>quote\<close> leaving the two plain names as they
  are: the candidates are the directories in listing order, each with a trailing
  separator, that is exactly \<open>foo/\<close> and \<open>foobar/\<close>, and \<open>bar.txt\<close> is not among
  them.
\<close>

theorem completeCd_foo_candidates:
  assumes cl: "Clean (RemoteWD s) = RemoteWD s" and nd: "RemoteWD s \<noteq> ''.''"
    and rel: "filepath_Rel sys (RemoteWD s) (RemoteWD s) = Inr ''.''"
    and rd: "client_ReadDir sys (RemoteWD s) (world s) = (Inr files, w1)"
    and files: "set files = {foo_dir, foobar_dir, bar_txt}"
    and q: "quote sys ''foo/'' = ''foo/''" "quote sys ''foobar/'' = ''foobar/''"
  shows "fst (completeCd sys [''foo''] s) = map (\<lambda>i. Name i @ ''/'') (filter IsDir files)
         \<and> set (fst (completeCd sys [''foo''] s)) = {''foo/'', ''foobar/''}"
proof -
  define L where "L = map (\<lambda>i. Name i @ ''/'') (filter IsDir files)"
  have d: "IsDir foo_dir" "IsDir foobar_dir" "\<not> IsDir bar_txt"
    by (simp_all add: foo_dir_def foobar_dir_def bar_txt_def)
  have nm: "Name foo_dir @ ''/'' = ''foo/''" "Name foobar_dir @ ''/'' = ''foobar/''"
    by (simp_all add: foo_dir_def foobar_dir_def)
  have "set (filter IsDir files) = {i \<in> {foo_dir, foobar_dir, bar_txt}. IsDir i}"
    by (simp only: set_filter files)
  also have "\<dots> = {foo_dir, foobar_dir}" using d by blast
  finally have dirs: "set (filter IsDir files) = {foo_dir, foobar_dir}" .
  have "set L = (\<lambda>i. Name i @ ''/'') ` set (filter IsDir files)"
    by (simp only: L_def set_map)
  also have "\<dots> = {''foo/'', ''foobar/''}"
    unfolding dirs by (simp only: image_insert image_empty nm)
  finally have sL: "set L = {''foo/'', ''foobar/''}" .
  have neL: "L \<noteq> []"
  proof
    assume "L = []"
    with sL show False by simp
  qed
  have pf: "HasPrefix ''foo/'' ''foo''" "HasPrefix ''foobar/'' ''foo''" by code_simp+
  have jn: "join ''.'' ''foo/'' = ''foo/''" "join ''.'' ''foobar/'' = ''foobar/''" by code_simp+
  have mem: "p = ''foo/'' \<or> p = ''foobar/''" if "p \<in> set L" for p
    using that unfolding sL by blast
  have f1: "filter (\<lambda>p. HasPrefix p ''foo'') L = L"
  proof (rule filter_True, rule ballI)
    fix p assume "p \<in> set L"
    from mem [OF this] pf show "HasPrefix p ''foo''" by blast
  qed
  have f2: "map (quote sys) L = L"
  proof (rule map_idI)
    fix p assume "p \<in> set L"
    from mem [OF this] q show "quote sys p = p" by blast
  qed
  have f3: "map (\<lambda>p. join ''.'' p) L = L"
  proof (rule map_idI)
    fix p assume "p \<in> set L"
    from mem [OF this] jn show "join ''.'' p = p" by blast
  qed
  have cf: "completeFiles sys ''foo'' files True False = L"
    unfolding completeFiles_def L_def [symmetric] Let_def using f1 f2 neL by simp
  have cand: "candidate sys (RemoteWD s) ''foo'' = (''foo'', RemoteWD s, ''.'')"
    by (rule candidate_foo [OF cl nd rel])
  have c: "call (client_ReadDir sys (RemoteWD s)) s = (Inr files, s\<lparr>world := w1\<rparr>)"
    using rd by (simp add: call_def)
  have "completeCd sys [''foo''] s = (L, s\<lparr>world := w1\<rparr>)"
    unfolding completeCd_def using cand c cf f3 neL by simp
  with sL show ?thesis by (simp add: L_def)
qed

theorem completeCd_foo_candidates_witness:
  "fst (completeCd msys [''foo''] (session foo_world)) = [''foo/'', ''foobar/'']"
proof -
  define files where "files = map entry_info (children (remote foo_world) ''/srv'')"
  define w1 where "w1 = record_call ''client.ReadDir'' ''/srv'' foo_world"
  have wd: "RemoteWD (session foo_world) = ''/srv''" by (simp add: session_def)
  have cl: "Clean (RemoteWD (session foo_world)) = RemoteWD (session foo_world)" by code_simp
  have nd: "RemoteWD (session foo_world) \<noteq> ''.''" by code_simp
  have rel: "filepath_Rel msys (RemoteWD (session foo_world)) (RemoteWD (session foo_world))
               = Inr ''.''"
    by code_simp
  have rd: "client_ReadDir msys (RemoteWD (session foo_world)) (world (session foo_world))
              = (Inr files, w1)"
    unfolding files_def w1_def by code_simp
  have fs: "set files = {foo_dir, foobar_dir, bar_txt}"
    unfolding files_def by code_simp
  have q: "quote msys ''foo/'' = ''foo/''" "quote msys ''foobar/'' = ''foobar/''"
    by code_simp+
  have l: "map (\<lambda>i. Name i @ ''/'') (filter IsDir files) = [''foo/'', ''foobar/'']"
    unfolding files_def by code_simp
  from completeCd_foo_candidates [OF cl nd rel rd fs q] l show ?thesis by simp
qed

end
